theory Spec2Isabelle
  imports Main "HOL-Library.Word"
begin

unbundle bit_operations_syntax

section \<open>Python values that reach \<open>Bit\<close>\<close>

text \<open>
  The constructor \<open>Bit.__init__(self, register=None, index=None)\<close> of
  \<open>qiskit/circuit/bit.py\<close> is duck typed. The model fixes the values it can be
  called with.

  An index argument is \<open>None\<close>, an \<open>int\<close> (unbounded), a \<open>bool\<close>, a \<open>float\<close>
  or any other object. A finite float is the dyadic rational \<open>m * 2 ^ e\<close> it
  denotes, so \<open>int()\<close> of it is an exact truncation and needs no floating-point
  arithmetic. Any other object (a string, a list, a user class) is described
  by the text of \<open>type(obj)\<close> and by what the builtin \<open>int(obj)\<close> does on it:
  the integer it returns or the exception it raises.
\<close>

datatype cast_error = TypeError | ValueError | OverflowError

datatype py_value =
    PyNone
  | PyInt int
  | PyBool bool
  | PyFloat int int
  | PyFloatInf
  | PyFloatNaN
  | PyOther string "cast_error + int"

text \<open>The builtin \<open>int(x)\<close>: truncation towards zero on floats, an exception on
  \<open>None\<close>, infinities and NaN.\<close>

fun py_int :: "py_value \<Rightarrow> cast_error + int" where
  "py_int PyNone = Inl TypeError"
| "py_int (PyInt i) = Inr i"
| "py_int (PyBool b) = Inr (if b then 1 else 0)"
| "py_int (PyFloat m e) =
     Inr (if 0 \<le> e then m * 2 ^ nat e else sgn m * (\<bar>m\<bar> div 2 ^ nat (- e)))"
| "py_int PyFloatInf = Inl OverflowError"
| "py_int PyFloatNaN = Inl ValueError"
| "py_int (PyOther ty r) = r"

text \<open>The text of \<open>type(x)\<close> inside an f-string.\<close>

fun type_str :: "py_value \<Rightarrow> string" where
  "type_str PyNone = ''<class 'NoneType'>''"
| "type_str (PyInt i) = ''<class 'int'>''"
| "type_str (PyBool b) = ''<class 'bool'>''"
| "type_str (PyFloat m e) = ''<class 'float'>''"
| "type_str PyFloatInf = ''<class 'float'>''"
| "type_str PyFloatNaN = ''<class 'float'>''"
| "type_str (PyOther ty r) = ty"

text \<open>\<open>str(i)\<close> of an integer: decimal digits, a minus sign in front of a
  negative number.\<close>

fun str_nat :: "nat \<Rightarrow> string" where
  "str_nat n =
     (if n < 10 then [''0123456789'' ! n]
      else str_nat (n div 10) @ [''0123456789'' ! (n mod 10)])"

declare str_nat.simps [simp del]

definition str_int :: "int \<Rightarrow> string" where
  "str_int i = (if i < 0 then CHR ''-'' # str_nat (nat (- i)) else str_nat (nat i))"

section \<open>Hashing\<close>

text \<open>
  \<open>hash()\<close> returns a \<open>Py_hash_t\<close>, 64 bits wide. The three functions below are
  CPython's (3.8 and later): the hash of an \<open>int\<close> is the number modulo the
  Mersenne prime \<open>2 ^ 61 - 1\<close> with the sign kept and \<open>-1\<close> replaced by \<open>-2\<close>; the
  hash of a tuple folds the hashes of its items with the xxHash primes;
  \<open>object.__hash__\<close> rotates the address of the object right by four bits.
\<close>

type_synonym py_hash = "64 word"

definition hash_int :: "int \<Rightarrow> py_hash" where
  "hash_int i =
     (let h = sgn i * (\<bar>i\<bar> mod (2 ^ 61 - 1))
      in word_of_int (if h = - 1 then - 2 else h))"

definition xxprime_1 :: py_hash where "xxprime_1 = 11400714785074694791"
definition xxprime_2 :: py_hash where "xxprime_2 = 14029467366897019727"
definition xxprime_5 :: py_hash where "xxprime_5 = 2870177450012600261"

definition xxrotate :: "py_hash \<Rightarrow> py_hash" where
  "xxrotate x = push_bit 31 x OR drop_bit 33 x"

fun tuple_lanes :: "py_hash \<Rightarrow> py_hash list \<Rightarrow> py_hash" where
  "tuple_lanes acc [] = acc"
| "tuple_lanes acc (lane # rest) =
     tuple_lanes (xxrotate (acc + lane * xxprime_2) * xxprime_1) rest"

definition tuple_hash :: "py_hash list \<Rightarrow> py_hash" where
  "tuple_hash items =
     (let acc = tuple_lanes xxprime_5 items
                + (word_of_nat (length items) XOR (xxprime_5 XOR 3527539))
      in if acc = - 1 then 1546275796 else acc)"

definition object_hash :: "nat \<Rightarrow> py_hash" where
  "object_hash addr =
     (let y = (word_of_nat addr :: py_hash);
          x = drop_bit 4 y OR push_bit 60 y
      in if x = - 1 then - 2 else x)"

section \<open>Registers and bits\<close>

text \<open>
  The register class is not part of the sources at hand. \<open>Bit\<close> uses four
  things of a register object: its identity, its \<open>size\<close>, its text in an
  f-string (\<open>str(register)\<close>) and its \<open>hash\<close> (a register is hashable).
  They are the fields of the record; nothing relates them to one another.
\<close>

record register =
  reg_id :: nat
  reg_size :: int
  reg_str :: string
  reg_hash :: py_hash

text \<open>
  A \<open>Bit\<close> object: its identity \<open>id(self)\<close>, the name of its class
  (\<open>self.__class__.__name__\<close>), and the four slots \<open>_register\<close>, \<open>_index\<close>,
  \<open>_hash\<close> and \<open>_repr\<close>. The constructor leaves the slot \<open>_repr\<close> of an
  unregistered bit unset: \<open>bit_repr\<close> is \<open>None\<close> then, and reading the slot
  raises \<open>AttributeError\<close>.
\<close>

record bit =
  bit_id :: nat
  bit_cls :: string
  bit_register :: "register option"
  bit_index :: "int option"
  bit_hash :: py_hash
  bit_repr :: "string option"

datatype py_error = CircuitError string | AttributeError string

text \<open>Lines 47-48 of \<open>bit.py\<close>: a negative index counts from the end of the
  register.\<close>

definition normalize_index :: "register \<Rightarrow> int \<Rightarrow> int" where
  "normalize_index r i = (if i < 0 then i + reg_size r else i)"

text \<open>
  \<open>Bit.__init__\<close>. \<open>self\<close> is the identity of the object being initialised
  and \<open>cls\<close> the name of its class. With a castable index and no register the
  read of \<open>register.size\<close> raises \<open>AttributeError\<close>.
\<close>

definition Bit_init :: "nat \<Rightarrow> string \<Rightarrow> register option \<Rightarrow> py_value \<Rightarrow> py_error + bit" where
  "Bit_init self cls reg idx =
     (if reg = None \<and> idx = PyNone then
        Inr \<lparr>bit_id = self, bit_cls = cls, bit_register = None, bit_index = None,
             bit_hash = object_hash self, bit_repr = None\<rparr>
      else
        case py_int idx of
          Inl ex \<Rightarrow>
            Inl (CircuitError (''index needs to be castable to an int: type ''
                               @ type_str idx @ '' was provided''))
        | Inr i \<Rightarrow>
            (case reg of
               None \<Rightarrow> Inl (AttributeError ''size'')
             | Some r \<Rightarrow>
                 let index = normalize_index r i in
                 if index \<ge> reg_size r then
                   Inl (CircuitError (''index must be under the size of the register: ''
                                      @ str_int index @ '' was provided''))
                 else
                   Inr \<lparr>bit_id = self, bit_cls = cls, bit_register = Some r,
                        bit_index = Some index,
                        bit_hash = tuple_hash [reg_hash r, hash_int index],
                        bit_repr = Some (cls @ ''('' @ reg_str r @ '', ''
                                         @ str_int index @ '')'')\<rparr>))"

text \<open>\<open>Bit.__hash__\<close> returns the stored hash.\<close>

definition Bit_hash :: "bit \<Rightarrow> py_hash" where
  "Bit_hash self = bit_hash self"

text \<open>
  The right operand of \<open>==\<close> is any object: a bit, or an object of another
  class, given by its identity and its attribute \<open>_repr\<close> if it has one.
\<close>

datatype py_object = BitObj bit | OtherObj nat "string option"

fun obj_id :: "py_object \<Rightarrow> nat" where
  "obj_id (BitObj b) = bit_id b"
| "obj_id (OtherObj a r) = a"

text \<open>Reading \<open>obj._repr\<close>.\<close>

fun getattr_repr :: "py_object \<Rightarrow> py_error + string" where
  "getattr_repr (BitObj b) =
     (case bit_repr b of None \<Rightarrow> Inl (AttributeError ''_repr'') | Some s \<Rightarrow> Inr s)"
| "getattr_repr (OtherObj a r) =
     (case r of None \<Rightarrow> Inl (AttributeError ''_repr'') | Some s \<Rightarrow> Inr s)"

text \<open>The test \<open>(self._register, self._index) == (None, None)\<close>.\<close>

definition unregistered :: "bit \<Rightarrow> bool" where
  "unregistered b = (bit_register b = None \<and> bit_index b = None)"

text \<open>
  \<open>Bit.__eq__\<close>. \<open>other is self\<close> compares identities. Both reads of \<open>_repr\<close>
  are inside the \<open>try\<close>, whose handler turns \<open>AttributeError\<close> into \<open>False\<close>.
\<close>

definition Bit_eq :: "bit \<Rightarrow> py_object \<Rightarrow> py_error + bool" where
  "Bit_eq self other =
     (if unregistered self then Inr (obj_id other = bit_id self)
      else
        case getattr_repr (BitObj self) of
          Inl (AttributeError a) \<Rightarrow> Inr False
        | Inl e \<Rightarrow> Inl e
        | Inr s \<Rightarrow>
            (case getattr_repr other of
               Inl (AttributeError a) \<Rightarrow> Inr False
             | Inl e \<Rightarrow> Inl e
             | Inr t \<Rightarrow> Inr (s = t)))"

text \<open>\<open>!=\<close> is the default \<open>object.__ne__\<close>: the negation of \<open>__eq__\<close>.\<close>

definition Bit_ne :: "bit \<Rightarrow> py_object \<Rightarrow> py_error + bool" where
  "Bit_ne self other =
     (case Bit_eq self other of Inl e \<Rightarrow> Inl e | Inr v \<Rightarrow> Inr (\<not> v))"

text \<open>\<open>Bit.__copy__\<close>.\<close>

definition Bit_copy :: "bit \<Rightarrow> bit" where
  "Bit_copy self = self"

text \<open>The memo of \<open>copy.deepcopy\<close> maps the identity of an object to its copy.\<close>

type_synonym memo = "nat \<rightharpoonup> register"

text \<open>Modelled from the spec: the register class is not part of the sources at
  hand, so nor is what \<open>copy.deepcopy(register, memo)\<close> does on one. Deep
  duplication of a registered bit duplicates the owning register (section 3):
  the copy is a new register object, at the next free identity \<open>fresh\<close>, with
  the size, text and hash of the original. The memo is that of
  \<open>copy.deepcopy\<close>: it maps the identity of an object to its copy, an object
  found there is not copied again, and a new copy is entered. The result is
  the copy, the next free identity and the memo.\<close>

definition deepcopy_register :: "nat \<Rightarrow> memo \<Rightarrow> register \<Rightarrow> register \<times> nat \<times> memo" where
  "deepcopy_register fresh memo r =
     (case memo (reg_id r) of
        Some c \<Rightarrow> (c, fresh, memo)
      | None \<Rightarrow>
          (let c = r\<lparr>reg_id := fresh\<rparr> in (c, Suc fresh, memo(reg_id r \<mapsto> c))))"

text \<open>
  \<open>Bit.__deepcopy__(self, memo=None)\<close>. The state is the next free identity;
  \<open>type(self).__new__(type(self))\<close> takes it for the new bit. \<open>memo = None\<close>
  is the argument left out: \<open>copy.deepcopy\<close> starts a memo of its own then and
  the caller sees none. The slots are written in the order of the source, so
  the register is copied before \<open>_repr\<close> is read. The result is the bit, the
  next free identity and the caller's memo as \<open>copy.deepcopy\<close> left it.
\<close>

definition Bit_deepcopy ::
  "nat \<Rightarrow> bit \<Rightarrow> memo option \<Rightarrow> py_error + (bit \<times> nat \<times> memo option)" where
  "Bit_deepcopy fresh self memo =
     (if unregistered self then Inr (self, fresh, memo)
      else
        let new_id = fresh;
            (reg', fresh', memo') =
              (case bit_register self of
                 None \<Rightarrow> (None, Suc fresh, memo)
               | Some r \<Rightarrow>
                   (case memo of
                      None \<Rightarrow>
                        (let (c, f, m) = deepcopy_register (Suc fresh) Map.empty r
                         in (Some c, f, None))
                    | Some m0 \<Rightarrow>
                        (let (c, f, m) = deepcopy_register (Suc fresh) m0 r
                         in (Some c, f, Some m))))
        in case bit_repr self of
             None \<Rightarrow> Inl (AttributeError ''_repr'')
           | Some s \<Rightarrow>
               Inr (\<lparr>bit_id = new_id, bit_cls = bit_cls self, bit_register = reg',
                     bit_index = bit_index self, bit_hash = bit_hash self,
                     bit_repr = Some s\<rparr>, fresh', memo'))"

section \<open>The Clifford collection pass\<close>

text \<open>
  An operation has a name and may have an attribute \<open>condition\<close>. The outer
  \<open>option\<close> of \<open>op_condition\<close> says whether the attribute exists, the inner
  one whether its value is \<open>None\<close> or a classical condition (a classical
  register or bit, by name, and the value it is compared with).
\<close>

type_synonym classical_condition = "string \<times> int"

record operation =
  op_name :: string
  op_condition :: "classical_condition option option"

text \<open>\<open>getattr(op, "condition", None)\<close>.\<close>

definition getattr_condition :: "operation \<Rightarrow> classical_condition option" where
  "getattr_condition op = (case op_condition op of None \<Rightarrow> None | Some c \<Rightarrow> c)"

text \<open>A node of the operation graph: its identity in the graph, its operation
  and the indices of the quantum and classical bits it acts on.\<close>

record dag_node =
  node_id :: nat
  node_op :: operation
  node_qargs :: "nat list"
  node_cargs :: "nat list"

text \<open>
  \<open>clifford_gate_names\<close>. The tables \<open>_BASIS_1Q\<close> and \<open>_BASIS_2Q\<close> are
  imported from a module that is not part of the sources at hand; the lists
  of their keys are parameters.
\<close>

definition clifford_gate_names :: "string list \<Rightarrow> string list \<Rightarrow> string list" where
  "clifford_gate_names BASIS_1Q BASIS_2Q =
     BASIS_1Q @ BASIS_2Q @ [''clifford'', ''linear_function'', ''pauli'', ''permutation'']"

text \<open>\<open>_is_clifford_gate\<close>.\<close>

definition is_clifford_gate :: "string list \<Rightarrow> string list \<Rightarrow> dag_node \<Rightarrow> bool" where
  "is_clifford_gate BASIS_1Q BASIS_2Q node =
     (op_name (node_op node) \<in> set (clifford_gate_names BASIS_1Q BASIS_2Q)
      \<and> getattr_condition (node_op node) = None)"

text \<open>
  \<open>CollectCliffords.__init__\<close>. \<open>functools.partial\<close> with keyword arguments
  is the record of the values it binds. \<open>_collapse_to_clifford\<close> builds a
  \<open>Clifford\<close> from a circuit; that class is not part of the sources at hand,
  and the function is a name here.
\<close>

datatype collapse_fn = collapse_to_clifford

record collect_partial =
  bound_filter_function :: "dag_node \<Rightarrow> bool"
  bound_split_blocks :: bool
  bound_min_block_size :: int
  bound_split_layers :: bool
  bound_collect_from_back :: bool

record collapse_partial =
  bound_collapse_function :: collapse_fn

record collect_and_collapse =
  cc_collect_function :: collect_partial
  cc_collapse_function :: collapse_partial
  cc_do_commutative_analysis :: bool

text \<open>Modelled from the spec: the base class \<open>CollectAndCollapse\<close> is not part of
  the sources at hand. Its initializer keeps the collection function, the
  collapse function and the commutative-analysis switch it is given (the
  configuration of the pass, section 4.4).\<close>

definition CollectAndCollapse_init ::
  "collect_partial \<Rightarrow> collapse_partial \<Rightarrow> bool \<Rightarrow> collect_and_collapse" where
  "CollectAndCollapse_init collect_function collapse_function do_commutative_analysis =
     \<lparr>cc_collect_function = collect_function,
      cc_collapse_function = collapse_function,
      cc_do_commutative_analysis = do_commutative_analysis\<rparr>"

text \<open>A keyword argument left out takes the default of the signature.\<close>

definition default_arg :: "'a \<Rightarrow> 'a option \<Rightarrow> 'a" where
  "default_arg d arg = (case arg of None \<Rightarrow> d | Some v \<Rightarrow> v)"

definition CollectCliffords_init ::
  "string list \<Rightarrow> string list \<Rightarrow> bool option \<Rightarrow> bool option \<Rightarrow> int option \<Rightarrow>
   bool option \<Rightarrow> bool option \<Rightarrow> collect_and_collapse" where
  "CollectCliffords_init BASIS_1Q BASIS_2Q do_commutative_analysis split_blocks
       min_block_size split_layers collect_from_back =
     (let collect_function =
            \<lparr>bound_filter_function = is_clifford_gate BASIS_1Q BASIS_2Q,
             bound_split_blocks = default_arg True split_blocks,
             bound_min_block_size = default_arg 2 min_block_size,
             bound_split_layers = default_arg False split_layers,
             bound_collect_from_back = default_arg False collect_from_back\<rparr>;
          collapse_function = \<lparr>bound_collapse_function = collapse_to_clifford\<rparr>
      in CollectAndCollapse_init collect_function collapse_function
           (default_arg False do_commutative_analysis))"

section \<open>The template and the collector\<close>

text \<open>
  The class \<open>QuantumCircuit\<close> is not part of the sources at hand. A circuit is
  its number of qubits and the list of its instructions, each an operation on
  qubits and classical bits given by their indices. The scenarios of section 8
  of the spec read the two templates as the graphs
  \<open>CX(q0,q1), X(q0), CX(q0,q1), X(q0), X(q1)\<close> and \<open>CZ(q0,q1), CZ(q0,q1)\<close>.
\<close>

record circuit_instruction =
  ci_operation :: operation
  ci_qubits :: "nat list"
  ci_clbits :: "nat list"

record quantum_circuit =
  num_qubits :: nat
  data :: "circuit_instruction list"

text \<open>Modelled from the spec: \<open>QuantumCircuit(n)\<close>, not part of the sources at
  hand, is the empty circuit on \<open>n\<close> qubits.\<close>

definition QuantumCircuit :: "nat \<Rightarrow> quantum_circuit" where
  "QuantumCircuit n = \<lparr>num_qubits = n, data = []\<rparr>"

text \<open>Modelled from the spec: a library gate, not part of the sources at hand, is
  an operation with its name and the attribute \<open>condition\<close> set to \<open>None\<close>,
  on the qubits given and on no classical bit.\<close>

definition gate :: "string \<Rightarrow> nat list \<Rightarrow> circuit_instruction" where
  "gate name qubits =
     \<lparr>ci_operation = \<lparr>op_name = name, op_condition = Some None\<rparr>,
      ci_qubits = qubits, ci_clbits = []\<rparr>"

text \<open>Modelled from the spec: \<open>QuantumCircuit.cx\<close>, not part of the sources at
  hand, appends \<open>CX(control, target)\<close>.\<close>

definition QuantumCircuit_cx :: "nat \<Rightarrow> nat \<Rightarrow> quantum_circuit \<Rightarrow> quantum_circuit" where
  "QuantumCircuit_cx control_qubit target_qubit qc =
     qc\<lparr>data := data qc @ [gate ''cx'' [control_qubit, target_qubit]]\<rparr>"

text \<open>Modelled from the spec: \<open>QuantumCircuit.x\<close>, not part of the sources at
  hand, appends \<open>X(qubit)\<close>.\<close>

definition QuantumCircuit_x :: "nat \<Rightarrow> quantum_circuit \<Rightarrow> quantum_circuit" where
  "QuantumCircuit_x qubit qc = qc\<lparr>data := data qc @ [gate ''x'' [qubit]]\<rparr>"

text \<open>\<open>template_nct_5a_4\<close>: the five calls of the source, in order.\<close>

definition template_nct_5a_4 :: quantum_circuit where
  "template_nct_5a_4 =
     (let qc = QuantumCircuit 2;
          qc = QuantumCircuit_cx 0 1 qc;
          qc = QuantumCircuit_x 0 qc;
          qc = QuantumCircuit_cx 0 1 qc;
          qc = QuantumCircuit_x 0 qc;
          qc = QuantumCircuit_x 1 qc
      in qc)"

text \<open>Modelled from the spec: \<open>QuantumCircuit.cz\<close>, not part of the sources at
  hand, appends \<open>CZ(control, target)\<close>.\<close>

definition QuantumCircuit_cz :: "nat \<Rightarrow> nat \<Rightarrow> quantum_circuit \<Rightarrow> quantum_circuit" where
  "QuantumCircuit_cz control_qubit target_qubit qc =
     qc\<lparr>data := data qc @ [gate ''cz'' [control_qubit, target_qubit]]\<rparr>"

text \<open>\<open>clifford_2_1\<close>: two \<open>cz\<close> gates on the same pair of qubits.\<close>

definition clifford_2_1 :: quantum_circuit where
  "clifford_2_1 =
     (let qc = QuantumCircuit 2;
          qc = QuantumCircuit_cz 0 1 qc;
          qc = QuantumCircuit_cz 0 1 qc
      in qc)"

text \<open>Modelled from the spec: the conversion of a circuit to an operation graph is
  not part of the sources at hand. The graph is the list of its nodes in
  topological order, which for a circuit is the order of its instructions
  (section 3: a node holds one operation and its ordered operands).\<close>

definition circuit_to_dag :: "quantum_circuit \<Rightarrow> dag_node list" where
  "circuit_to_dag qc =
     map (\<lambda>(i, inst). \<lparr>node_id = i, node_op = ci_operation inst,
                        node_qargs = ci_qubits inst, node_cargs = ci_clbits inst\<rparr>)
         (enumerate 0 (data qc))"

text \<open>Modelled from the spec: the Collector is not part of the sources at hand.
  This is the walk of section 4.2, forward and without commutative analysis:
  the nodes are taken in topological order with a candidate block; a node
  that matches is appended to it, a node that does not match closes it, and
  the end of the walk closes it.\<close>

fun collect_runs ::
  "(dag_node \<Rightarrow> bool) \<Rightarrow> dag_node list \<Rightarrow> dag_node list \<Rightarrow> dag_node list list" where
  "collect_runs matches block [] = (if block = [] then [] else [block])"
| "collect_runs matches block (n # ns) =
     (if matches n then collect_runs matches (block @ [n]) ns
      else (if block = [] then [] else [block]) @ collect_runs matches [] ns)"

text \<open>Modelled from the spec: the operand overlap of section 4.2, not part of the
  sources at hand. Two nodes overlap when they share a quantum or a classical
  bit.\<close>

definition shares_operand :: "dag_node \<Rightarrow> dag_node \<Rightarrow> bool" where
  "shares_operand a b =
     ((\<exists>q \<in> set (node_qargs a). q \<in> set (node_qargs b))
      \<or> (\<exists>c \<in> set (node_cargs a). c \<in> set (node_cargs b)))"

text \<open>Modelled from the spec: one step of \<open>split_blocks\<close> (section 4.2), not part
  of the sources at hand. Two nodes are in the same component iff they share
  at least one operand, transitively: a node, with its position in the run,
  joins the components that hold a node overlapping it, which merges them.
  Inside a component the nodes keep the order of the run.\<close>

definition add_to_components ::
  "(nat \<times> dag_node) list list \<Rightarrow> nat \<times> dag_node \<Rightarrow> (nat \<times> dag_node) list list" where
  "add_to_components comps n =
     (let touching = (\<lambda>c. \<exists>m \<in> set c. shares_operand (snd n) (snd m))
      in filter (\<lambda>c. \<not> touching c) comps
         @ [sort_key fst (concat (filter touching comps) @ [n])])"

text \<open>Modelled from the spec: \<open>split_blocks\<close> of section 4.2, not part of the
  sources at hand, on one run: its connected components, in the order of
  their first nodes.\<close>

definition split_block :: "dag_node list \<Rightarrow> dag_node list list" where
  "split_block block =
     map (map snd)
       (sort_key (\<lambda>c. fst (hd c)) (foldl add_to_components [] (enumerate 0 block)))"

text \<open>Modelled from the spec: \<open>collect_using_filter_function\<close> is not part of
  the sources at hand. This is the Collector of section 4.2 with
  \<open>split_layers\<close> and \<open>collect_from_back\<close> off and without commutative
  analysis: the runs of matching nodes, split into components under
  \<open>split_blocks\<close>; \<open>min_block_size\<close> discards the components (or whole runs)
  with fewer nodes than the threshold. The blocks come out in the order they
  were closed.\<close>

definition collect_using_filter_function ::
  "dag_node list \<Rightarrow> (dag_node \<Rightarrow> bool) \<Rightarrow> bool \<Rightarrow> int \<Rightarrow> dag_node list list" where
  "collect_using_filter_function dag filter_function split_blocks min_block_size =
     filter (\<lambda>block. min_block_size \<le> int (length block))
       (concat (map (\<lambda>block. if split_blocks then split_block block else [block])
                    (collect_runs filter_function [] dag)))"

section \<open>Facts about the constructor\<close>

lemma Bit_init_registered:
  "Bit_init self cls (Some r) idx = Inr b \<Longrightarrow>
   \<exists>i. py_int idx = Inr i \<and> normalize_index r i < reg_size r \<and>
       b = \<lparr>bit_id = self, bit_cls = cls, bit_register = Some r,
            bit_index = Some (normalize_index r i),
            bit_hash = tuple_hash [reg_hash r, hash_int (normalize_index r i)],
            bit_repr = Some (cls @ ''('' @ reg_str r @ '', ''
                             @ str_int (normalize_index r i) @ '')'')\<rparr>"
  by (auto simp: Bit_init_def Let_def split: sum.splits if_splits)

lemma Bit_init_unregistered:
  "Bit_init self cls None PyNone =
     Inr \<lparr>bit_id = self, bit_cls = cls, bit_register = None, bit_index = None,
          bit_hash = object_hash self, bit_repr = None\<rparr>"
  by (simp add: Bit_init_def)

lemma tuple_hash_1_0: "tuple_hash [1, hash_int 0] = 13282122221094607640"
  by (simp add: tuple_hash_def hash_int_def xxrotate_def xxprime_1_def xxprime_2_def
        xxprime_5_def)

lemma tuple_hash_2_0: "tuple_hash [2, hash_int 0] = 4685526799349444076"
  by (simp add: tuple_hash_def hash_int_def xxrotate_def xxprime_1_def xxprime_2_def
        xxprime_5_def)

lemma str_int_0: "str_int 0 = ''0''"
  by (simp add: str_int_def str_nat.simps)

lemma str_int_3: "str_int 3 = ''3''"
  by (simp add: str_int_def str_nat.simps)

lemma str_int_minus_3: "str_int (- 3) = ''-3''"
  by (simp add: str_int_def str_nat.simps)

lemma Bit_init_q0_hash_1:
  "Bit_init a ''Qubit''
     (Some \<lparr>reg_id = i, reg_size = 1, reg_str = ''QuantumRegister(1, 'q')'', reg_hash = 1\<rparr>)
     (PyInt 0)
   = Inr \<lparr>bit_id = a, bit_cls = ''Qubit'',
          bit_register = Some \<lparr>reg_id = i, reg_size = 1,
                                reg_str = ''QuantumRegister(1, 'q')'', reg_hash = 1\<rparr>,
          bit_index = Some 0, bit_hash = 13282122221094607640,
          bit_repr = Some ''Qubit(QuantumRegister(1, 'q'), 0)''\<rparr>"
  by (simp add: Bit_init_def normalize_index_def tuple_hash_1_0 str_int_0)

lemma Bit_init_q0_hash_2:
  "Bit_init a ''Qubit''
     (Some \<lparr>reg_id = i, reg_size = 1, reg_str = ''QuantumRegister(1, 'q')'', reg_hash = 2\<rparr>)
     (PyInt 0)
   = Inr \<lparr>bit_id = a, bit_cls = ''Qubit'',
          bit_register = Some \<lparr>reg_id = i, reg_size = 1,
                                reg_str = ''QuantumRegister(1, 'q')'', reg_hash = 2\<rparr>,
          bit_index = Some 0, bit_hash = 4685526799349444076,
          bit_repr = Some ''Qubit(QuantumRegister(1, 'q'), 0)''\<rparr>"
  by (simp add: Bit_init_def normalize_index_def tuple_hash_2_0 str_int_0)

section \<open>Equality and hash of registered bits\<close>

text \<open>
  C1 (as amended). Two registered bits of the same class whose registers have
  the same text and whose normalized indices are equal compare equal, also
  when the bits and their registers are distinct objects. Their hashes are
  equal when the two registers have the same hash: the hash of a bit is
  computed from the hash of its register and from its index, not from the
  text that equality compares.
\<close>

theorem registered_bits_equal_by_display:
  assumes "Bit_init a1 cls (Some r1) i1 = Inr b1"
      and "Bit_init a2 cls (Some r2) i2 = Inr b2"
      and "reg_str r1 = reg_str r2"
      and "bit_index b1 = bit_index b2"
  shows "Bit_eq b1 (BitObj b2) = Inr True \<and>
         (reg_hash r1 = reg_hash r2 \<longrightarrow> Bit_hash b1 = Bit_hash b2)"
proof -
  from assms(1) obtain j1 where b1:
    "b1 = \<lparr>bit_id = a1, bit_cls = cls, bit_register = Some r1,
           bit_index = Some (normalize_index r1 j1),
           bit_hash = tuple_hash [reg_hash r1, hash_int (normalize_index r1 j1)],
           bit_repr = Some (cls @ ''('' @ reg_str r1 @ '', ''
                            @ str_int (normalize_index r1 j1) @ '')'')\<rparr>"
    using Bit_init_registered by blast
  from assms(2) obtain j2 where b2:
    "b2 = \<lparr>bit_id = a2, bit_cls = cls, bit_register = Some r2,
           bit_index = Some (normalize_index r2 j2),
           bit_hash = tuple_hash [reg_hash r2, hash_int (normalize_index r2 j2)],
           bit_repr = Some (cls @ ''('' @ reg_str r2 @ '', ''
                            @ str_int (normalize_index r2 j2) @ '')'')\<rparr>"
    using Bit_init_registered by blast
  from assms(4) have idx: "normalize_index r1 j1 = normalize_index r2 j2"
    by (simp add: b1 b2)
  show ?thesis
    using assms(3) idx by (simp add: b1 b2 Bit_eq_def unregistered_def Bit_hash_def)
qed

text \<open>
  The amended statement at two bits on distinct register objects with the same
  text, size and hash: the bits are equal and hash alike.
\<close>

theorem registered_bits_equal_by_display_witness:
  "Bit_eq \<lparr>bit_id = 10, bit_cls = ''Qubit'',
          bit_register = Some \<lparr>reg_id = 1, reg_size = 1,
                                reg_str = ''QuantumRegister(1, 'q')'', reg_hash = 1\<rparr>,
          bit_index = Some 0, bit_hash = 13282122221094607640,
          bit_repr = Some ''Qubit(QuantumRegister(1, 'q'), 0)''\<rparr>
     (BitObj \<lparr>bit_id = 11, bit_cls = ''Qubit'',
          bit_register = Some \<lparr>reg_id = 2, reg_size = 1,
                                reg_str = ''QuantumRegister(1, 'q')'', reg_hash = 1\<rparr>,
          bit_index = Some 0, bit_hash = 13282122221094607640,
          bit_repr = Some ''Qubit(QuantumRegister(1, 'q'), 0)''\<rparr>) = Inr True
   \<and> Bit_hash \<lparr>bit_id = 10, bit_cls = ''Qubit'',
          bit_register = Some \<lparr>reg_id = 1, reg_size = 1,
                                reg_str = ''QuantumRegister(1, 'q')'', reg_hash = 1\<rparr>,
          bit_index = Some 0, bit_hash = 13282122221094607640,
          bit_repr = Some ''Qubit(QuantumRegister(1, 'q'), 0)''\<rparr>
     = Bit_hash \<lparr>bit_id = 11, bit_cls = ''Qubit'',
          bit_register = Some \<lparr>reg_id = 2, reg_size = 1,
                                reg_str = ''QuantumRegister(1, 'q')'', reg_hash = 1\<rparr>,
          bit_index = Some 0, bit_hash = 13282122221094607640,
          bit_repr = Some ''Qubit(QuantumRegister(1, 'q'), 0)''\<rparr>"
  using registered_bits_equal_by_display
          [OF Bit_init_q0_hash_1 [of 10 1] Bit_init_q0_hash_1 [of 11 2]]
  by simp

text \<open>
  C1 as stated fails. Two registers with the text \<open>QuantumRegister(1, 'q')\<close>
  and the hashes 1 and 2: the bits at index 0 built on them are of the same
  class, have the same register text and the same index, and compare equal,
  but their hashes differ.
\<close>

theorem registered_bits_hash_counterexample:
  "Bit_init 10 ''Qubit''
     (Some \<lparr>reg_id = 1, reg_size = 1, reg_str = ''QuantumRegister(1, 'q')'', reg_hash = 1\<rparr>)
     (PyInt 0)
   = Inr \<lparr>bit_id = 10, bit_cls = ''Qubit'',
          bit_register = Some \<lparr>reg_id = 1, reg_size = 1,
                                reg_str = ''QuantumRegister(1, 'q')'', reg_hash = 1\<rparr>,
          bit_index = Some 0, bit_hash = 13282122221094607640,
          bit_repr = Some ''Qubit(QuantumRegister(1, 'q'), 0)''\<rparr>
   \<and> Bit_init 11 ''Qubit''
     (Some \<lparr>reg_id = 2, reg_size = 1, reg_str = ''QuantumRegister(1, 'q')'', reg_hash = 2\<rparr>)
     (PyInt 0)
   = Inr \<lparr>bit_id = 11, bit_cls = ''Qubit'',
          bit_register = Some \<lparr>reg_id = 2, reg_size = 1,
                                reg_str = ''QuantumRegister(1, 'q')'', reg_hash = 2\<rparr>,
          bit_index = Some 0, bit_hash = 4685526799349444076,
          bit_repr = Some ''Qubit(QuantumRegister(1, 'q'), 0)''\<rparr>
   \<and> Bit_eq \<lparr>bit_id = 10, bit_cls = ''Qubit'',
          bit_register = Some \<lparr>reg_id = 1, reg_size = 1,
                                reg_str = ''QuantumRegister(1, 'q')'', reg_hash = 1\<rparr>,
          bit_index = Some 0, bit_hash = 13282122221094607640,
          bit_repr = Some ''Qubit(QuantumRegister(1, 'q'), 0)''\<rparr>
       (BitObj \<lparr>bit_id = 11, bit_cls = ''Qubit'',
          bit_register = Some \<lparr>reg_id = 2, reg_size = 1,
                                reg_str = ''QuantumRegister(1, 'q')'', reg_hash = 2\<rparr>,
          bit_index = Some 0, bit_hash = 4685526799349444076,
          bit_repr = Some ''Qubit(QuantumRegister(1, 'q'), 0)''\<rparr>) = Inr True
   \<and> Bit_hash \<lparr>bit_id = 10, bit_cls = ''Qubit'',
          bit_register = Some \<lparr>reg_id = 1, reg_size = 1,
                                reg_str = ''QuantumRegister(1, 'q')'', reg_hash = 1\<rparr>,
          bit_index = Some 0, bit_hash = 13282122221094607640,
          bit_repr = Some ''Qubit(QuantumRegister(1, 'q'), 0)''\<rparr>
     \<noteq> Bit_hash \<lparr>bit_id = 11, bit_cls = ''Qubit'',
          bit_register = Some \<lparr>reg_id = 2, reg_size = 1,
                                reg_str = ''QuantumRegister(1, 'q')'', reg_hash = 2\<rparr>,
          bit_index = Some 0, bit_hash = 4685526799349444076,
          bit_repr = Some ''Qubit(QuantumRegister(1, 'q'), 0)''\<rparr>"
  by (simp add: Bit_init_q0_hash_1 Bit_init_q0_hash_2 Bit_eq_def unregistered_def Bit_hash_def)

section \<open>Index normalization and the range check\<close>

text \<open>
  C2. With an integer index \<open>off < 0\<close> on a register of size \<open>n\<close> such that
  \<open>off + n\<close> is still negative, the constructor succeeds: the only check after
  normalization is the upper bound, and the bit stores the negative index
  \<open>off + n\<close>.
\<close>

theorem negative_index_after_normalization_accepted:
  assumes "off < 0" and "off + reg_size r < 0"
  shows "Bit_init self cls (Some r) (PyInt off) =
           Inr \<lparr>bit_id = self, bit_cls = cls, bit_register = Some r,
                bit_index = Some (off + reg_size r),
                bit_hash = tuple_hash [reg_hash r, hash_int (off + reg_size r)],
                bit_repr = Some (cls @ ''('' @ reg_str r @ '', ''
                                 @ str_int (off + reg_size r) @ '')'')\<rparr>"
  using assms by (simp add: Bit_init_def normalize_index_def Let_def)

text \<open>Index \<open>-5\<close> on a register of size 2: the bit is built with index \<open>-3\<close>.\<close>

theorem negative_index_after_normalization_accepted_witness:
  "(- 5 :: int) < 0
   \<and> - 5 + reg_size \<lparr>reg_id = 1, reg_size = 2,
                       reg_str = ''QuantumRegister(2, 'q')'', reg_hash = 1\<rparr> < 0
   \<and> Bit_init 10 ''Qubit''
       (Some \<lparr>reg_id = 1, reg_size = 2, reg_str = ''QuantumRegister(2, 'q')'', reg_hash = 1\<rparr>)
       (PyInt (- 5))
     = Inr \<lparr>bit_id = 10, bit_cls = ''Qubit'',
            bit_register = Some \<lparr>reg_id = 1, reg_size = 2,
                                  reg_str = ''QuantumRegister(2, 'q')'', reg_hash = 1\<rparr>,
            bit_index = Some (- 3), bit_hash = tuple_hash [1, hash_int (- 3)],
            bit_repr = Some ''Qubit(QuantumRegister(2, 'q'), -3)''\<rparr>"
  using negative_index_after_normalization_accepted
          [of "- 5" "\<lparr>reg_id = 1, reg_size = 2,
                       reg_str = ''QuantumRegister(2, 'q')'', reg_hash = 1\<rparr>" 10 "''Qubit''"]
  by (simp add: str_int_minus_3)

text \<open>
  C3. On a register of size \<open>n\<close> the index \<open>-1\<close> is accepted and the bit
  stores \<open>n - 1\<close>. An integer index whose normalized value is \<open>n\<close> or more
  raises the out-of-range \<open>CircuitError\<close>, and no bit is built.
\<close>

theorem index_minus_one_and_out_of_range:
  "(\<exists>b. Bit_init self cls (Some r) (PyInt (- 1)) = Inr b \<and>
        bit_register b = Some r \<and> bit_index b = Some (reg_size r - 1)) \<and>
   (reg_size r \<le> normalize_index r off \<longrightarrow>
      Bit_init self cls (Some r) (PyInt off) =
        Inl (CircuitError (''index must be under the size of the register: ''
                           @ str_int (normalize_index r off) @ '' was provided'')))"
  by (simp add: Bit_init_def normalize_index_def Let_def)

text \<open>Index 3 on a register of size 3 is out of range.\<close>

theorem index_minus_one_and_out_of_range_witness:
  "reg_size \<lparr>reg_id = 1, reg_size = 3, reg_str = ''QuantumRegister(3, 'q')'', reg_hash = 1\<rparr>
     \<le> normalize_index \<lparr>reg_id = 1, reg_size = 3,
                         reg_str = ''QuantumRegister(3, 'q')'', reg_hash = 1\<rparr> 3
   \<and> Bit_init 10 ''Qubit''
       (Some \<lparr>reg_id = 1, reg_size = 3, reg_str = ''QuantumRegister(3, 'q')'', reg_hash = 1\<rparr>)
       (PyInt 3)
     = Inl (CircuitError ''index must be under the size of the register: 3 was provided'')"
  using index_minus_one_and_out_of_range
          [of 10 "''Qubit''" "\<lparr>reg_id = 1, reg_size = 3,
                                reg_str = ''QuantumRegister(3, 'q')'', reg_hash = 1\<rparr>" 3]
  by (simp add: normalize_index_def str_int_3)

section \<open>Equality of unregistered bits\<close>

text \<open>
  C4. An unregistered bit is equal to itself, and it is not equal to any
  other instance: \<open>==\<close> gives \<open>False\<close> and \<open>!=\<close> gives \<open>True\<close> on every bit with
  another identity, whatever its slots hold.
\<close>

theorem unregistered_eq_is_identity:
  assumes "unregistered u1"
  shows "Bit_eq u1 (BitObj u1) = Inr True \<and>
         (\<forall>u2. bit_id u2 \<noteq> bit_id u1 \<longrightarrow>
            Bit_eq u1 (BitObj u2) = Inr False \<and> Bit_ne u1 (BitObj u2) = Inr True)"
  using assms by (simp add: Bit_eq_def Bit_ne_def)

text \<open>Two unregistered bits of the same class, built at the identities 10 and 11.\<close>

theorem unregistered_eq_is_identity_witness:
  "unregistered \<lparr>bit_id = 10, bit_cls = ''Qubit'', bit_register = None, bit_index = None,
                 bit_hash = object_hash 10, bit_repr = None\<rparr>
   \<and> bit_id \<lparr>bit_id = 11, bit_cls = ''Qubit'', bit_register = None, bit_index = None,
             bit_hash = object_hash 11, bit_repr = None\<rparr>
     \<noteq> bit_id \<lparr>bit_id = 10, bit_cls = ''Qubit'', bit_register = None, bit_index = None,
               bit_hash = object_hash 10, bit_repr = None\<rparr>
   \<and> Bit_eq \<lparr>bit_id = 10, bit_cls = ''Qubit'', bit_register = None, bit_index = None,
             bit_hash = object_hash 10, bit_repr = None\<rparr>
       (BitObj \<lparr>bit_id = 10, bit_cls = ''Qubit'', bit_register = None, bit_index = None,
               bit_hash = object_hash 10, bit_repr = None\<rparr>) = Inr True
   \<and> Bit_eq \<lparr>bit_id = 10, bit_cls = ''Qubit'', bit_register = None, bit_index = None,
             bit_hash = object_hash 10, bit_repr = None\<rparr>
       (BitObj \<lparr>bit_id = 11, bit_cls = ''Qubit'', bit_register = None, bit_index = None,
               bit_hash = object_hash 11, bit_repr = None\<rparr>) = Inr False
   \<and> Bit_ne \<lparr>bit_id = 10, bit_cls = ''Qubit'', bit_register = None, bit_index = None,
             bit_hash = object_hash 10, bit_repr = None\<rparr>
       (BitObj \<lparr>bit_id = 11, bit_cls = ''Qubit'', bit_register = None, bit_index = None,
               bit_hash = object_hash 11, bit_repr = None\<rparr>) = Inr True"
proof -
  have h: "unregistered \<lparr>bit_id = 10, bit_cls = ''Qubit'', bit_register = None,
                          bit_index = None, bit_hash = object_hash 10, bit_repr = None\<rparr>"
    by (simp add: unregistered_def)
  show ?thesis
    using h unregistered_eq_is_identity [OF h] by simp
qed

section \<open>Copies\<close>

text \<open>
  C5. \<open>__copy__\<close> returns the bit itself. \<open>__deepcopy__\<close> of an unregistered
  bit returns the bit itself and allocates nothing. \<open>__deepcopy__\<close> of a
  registered bit returns a new instance: its register is the deep copy of the
  register of the original (a new register object when no memo is passed),
  and its class, index, hash and display string are those of the original,
  taken over as they were computed.
\<close>

theorem copy_and_deepcopy:
  "Bit_copy b = b \<and>
   (unregistered b \<longrightarrow> Bit_deepcopy fresh b memo = Inr (b, fresh, memo)) \<and>
   (\<forall>self cls r idx.
      Bit_init self cls (Some r) idx = Inr b \<and> self < fresh \<and> reg_id r < fresh \<longrightarrow>
      (\<exists>b' fresh' memo'.
         Bit_deepcopy fresh b memo = Inr (b', fresh', memo') \<and>
         bit_id b' = fresh \<and> bit_id b' \<noteq> bit_id b \<and> bit_cls b' = bit_cls b \<and>
         bit_index b' = bit_index b \<and> bit_hash b' = bit_hash b \<and>
         bit_repr b' = bit_repr b \<and>
         bit_register b' =
           Some (fst (deepcopy_register (Suc fresh)
                        (case memo of None \<Rightarrow> Map.empty | Some m \<Rightarrow> m) r)) \<and>
         (memo = None \<longrightarrow>
            bit_register b' = Some (r\<lparr>reg_id := Suc fresh\<rparr>) \<and>
            Suc fresh \<noteq> reg_id r \<and> fresh' = Suc (Suc fresh) \<and> memo' = None)))"
proof (intro conjI allI impI)
  show "Bit_copy b = b" by (simp add: Bit_copy_def)
next
  assume "unregistered b"
  then show "Bit_deepcopy fresh b memo = Inr (b, fresh, memo)"
    by (simp add: Bit_deepcopy_def)
next
  fix self cls r idx
  assume h: "Bit_init self cls (Some r) idx = Inr b \<and> self < fresh \<and> reg_id r < fresh"
  then obtain i where b:
    "b = \<lparr>bit_id = self, bit_cls = cls, bit_register = Some r,
          bit_index = Some (normalize_index r i),
          bit_hash = tuple_hash [reg_hash r, hash_int (normalize_index r i)],
          bit_repr = Some (cls @ ''('' @ reg_str r @ '', ''
                           @ str_int (normalize_index r i) @ '')'')\<rparr>"
    using Bit_init_registered by blast
  from h show "\<exists>b' fresh' memo'.
         Bit_deepcopy fresh b memo = Inr (b', fresh', memo') \<and>
         bit_id b' = fresh \<and> bit_id b' \<noteq> bit_id b \<and> bit_cls b' = bit_cls b \<and>
         bit_index b' = bit_index b \<and> bit_hash b' = bit_hash b \<and>
         bit_repr b' = bit_repr b \<and>
         bit_register b' =
           Some (fst (deepcopy_register (Suc fresh)
                        (case memo of None \<Rightarrow> Map.empty | Some m \<Rightarrow> m) r)) \<and>
         (memo = None \<longrightarrow>
            bit_register b' = Some (r\<lparr>reg_id := Suc fresh\<rparr>) \<and>
            Suc fresh \<noteq> reg_id r \<and> fresh' = Suc (Suc fresh) \<and> memo' = None)"
    by (cases memo)
       (auto simp: b Bit_deepcopy_def unregistered_def deepcopy_register_def Let_def
             split: option.splits prod.splits)
qed

text \<open>
  The bit at index 0 of a register, built at identity 10, and an unregistered
  bit at identity 11, with 20 the next free identity and no memo: the deep
  copy of the first is the new bit 20 on the new register 21, with the hash
  and the display string of the original; the second is returned as it is.
\<close>

theorem copy_and_deepcopy_witness:
  "unregistered \<lparr>bit_id = 11, bit_cls = ''Qubit'', bit_register = None, bit_index = None,
                 bit_hash = object_hash 11, bit_repr = None\<rparr>
   \<and> Bit_deepcopy 20
       \<lparr>bit_id = 11, bit_cls = ''Qubit'', bit_register = None, bit_index = None,
        bit_hash = object_hash 11, bit_repr = None\<rparr> None
     = Inr (\<lparr>bit_id = 11, bit_cls = ''Qubit'', bit_register = None, bit_index = None,
             bit_hash = object_hash 11, bit_repr = None\<rparr>, 20, None)
   \<and> Bit_init 10 ''Qubit''
       (Some \<lparr>reg_id = 1, reg_size = 1, reg_str = ''QuantumRegister(1, 'q')'', reg_hash = 1\<rparr>)
       (PyInt 0)
     = Inr \<lparr>bit_id = 10, bit_cls = ''Qubit'',
            bit_register = Some \<lparr>reg_id = 1, reg_size = 1,
                                  reg_str = ''QuantumRegister(1, 'q')'', reg_hash = 1\<rparr>,
            bit_index = Some 0, bit_hash = 13282122221094607640,
            bit_repr = Some ''Qubit(QuantumRegister(1, 'q'), 0)''\<rparr>
   \<and> (10 :: nat) < 20 \<and> (1 :: nat) < 20
   \<and> Bit_deepcopy 20
       \<lparr>bit_id = 10, bit_cls = ''Qubit'',
        bit_register = Some \<lparr>reg_id = 1, reg_size = 1,
                              reg_str = ''QuantumRegister(1, 'q')'', reg_hash = 1\<rparr>,
        bit_index = Some 0, bit_hash = 13282122221094607640,
        bit_repr = Some ''Qubit(QuantumRegister(1, 'q'), 0)''\<rparr> None
     = Inr (\<lparr>bit_id = 20, bit_cls = ''Qubit'',
             bit_register = Some \<lparr>reg_id = 21, reg_size = 1,
                                   reg_str = ''QuantumRegister(1, 'q')'', reg_hash = 1\<rparr>,
             bit_index = Some 0, bit_hash = 13282122221094607640,
             bit_repr = Some ''Qubit(QuantumRegister(1, 'q'), 0)''\<rparr>, 22, None)"
proof -
  let ?u = "\<lparr>bit_id = 11, bit_cls = ''Qubit'', bit_register = None, bit_index = None,
             bit_hash = object_hash 11, bit_repr = None\<rparr>"
  let ?r = "\<lparr>reg_id = 1, reg_size = 1, reg_str = ''QuantumRegister(1, 'q')'',
             reg_hash = 1 :: py_hash\<rparr>"
  let ?b = "\<lparr>bit_id = 10, bit_cls = ''Qubit'', bit_register = Some ?r,
             bit_index = Some 0, bit_hash = 13282122221094607640,
             bit_repr = Some ''Qubit(QuantumRegister(1, 'q'), 0)''\<rparr>"
  have u: "unregistered ?u"
    by (simp add: unregistered_def)
  have du: "Bit_deepcopy 20 ?u None = Inr (?u, 20, None)"
    using u copy_and_deepcopy [of ?u 20 None] by blast
  have i: "Bit_init 10 ''Qubit'' (Some ?r) (PyInt 0) = Inr ?b"
    by (rule Bit_init_q0_hash_1)
  have "\<exists>b' fresh' memo'.
          Bit_deepcopy 20 ?b None = Inr (b', fresh', memo') \<and>
          bit_id b' = 20 \<and> bit_cls b' = bit_cls ?b \<and> bit_index b' = bit_index ?b \<and>
          bit_hash b' = bit_hash ?b \<and> bit_repr b' = bit_repr ?b \<and>
          bit_register b' = Some (?r\<lparr>reg_id := Suc 20\<rparr>) \<and>
          fresh' = Suc (Suc 20) \<and> memo' = None"
    using i copy_and_deepcopy [of ?b 20 None] by fastforce
  then have db: "Bit_deepcopy 20 ?b None =
      Inr (\<lparr>bit_id = 20, bit_cls = ''Qubit'', bit_register = Some (?r\<lparr>reg_id := 21\<rparr>),
             bit_index = Some 0, bit_hash = 13282122221094607640,
             bit_repr = Some ''Qubit(QuantumRegister(1, 'q'), 0)''\<rparr>, 22, None)"
    by (auto simp: bit.equality)
  show ?thesis
    using u du i db by simp
qed

section \<open>The type check of the index\<close>

text \<open>
  C9. When a register or an index is given and \<open>int(index)\<close> raises, the
  constructor raises the \<open>CircuitError\<close> that names the type of the index.
  When \<open>int(index)\<close> returns \<open>i\<close> (a float, a numeric string), the
  constructor goes on with \<open>i\<close>: it does what it does on the integer \<open>i\<close>.
\<close>

theorem index_not_castable_raises:
  "((reg \<noteq> None \<or> idx \<noteq> PyNone) \<and> py_int idx = Inl ex \<longrightarrow>
      Bit_init self cls reg idx =
        Inl (CircuitError (''index needs to be castable to an int: type ''
                           @ type_str idx @ '' was provided''))) \<and>
   (py_int idx = Inr i \<longrightarrow>
      Bit_init self cls reg idx = Bit_init self cls reg (PyInt i))"
  by (auto simp: Bit_init_def)

text \<open>
  On a register of size 1: the string \<open>abc\<close> (\<open>int\<close> raises \<open>ValueError\<close>) and
  \<open>None\<close> (\<open>TypeError\<close>) are refused with the type error; the float \<open>0.5\<close>
  and the string \<open>0\<close> are cast to 0 and give the bit at index 0.
\<close>

theorem index_not_castable_raises_witness:
  "py_int (PyOther ''<class 'str'>'' (Inl ValueError)) = Inl ValueError
   \<and> Bit_init 10 ''Qubit''
       (Some \<lparr>reg_id = 1, reg_size = 1, reg_str = ''QuantumRegister(1, 'q')'', reg_hash = 1\<rparr>)
       (PyOther ''<class 'str'>'' (Inl ValueError))
     = Inl (CircuitError
              ''index needs to be castable to an int: type <class 'str'> was provided'')
   \<and> py_int PyNone = Inl TypeError
   \<and> Bit_init 10 ''Qubit''
       (Some \<lparr>reg_id = 1, reg_size = 1, reg_str = ''QuantumRegister(1, 'q')'', reg_hash = 1\<rparr>)
       PyNone
     = Inl (CircuitError
              ''index needs to be castable to an int: type <class 'NoneType'> was provided'')
   \<and> py_int (PyFloat 1 (- 1)) = Inr 0
   \<and> Bit_init 10 ''Qubit''
       (Some \<lparr>reg_id = 1, reg_size = 1, reg_str = ''QuantumRegister(1, 'q')'', reg_hash = 1\<rparr>)
       (PyFloat 1 (- 1))
     = Inr \<lparr>bit_id = 10, bit_cls = ''Qubit'',
            bit_register = Some \<lparr>reg_id = 1, reg_size = 1,
                                  reg_str = ''QuantumRegister(1, 'q')'', reg_hash = 1\<rparr>,
            bit_index = Some 0, bit_hash = 13282122221094607640,
            bit_repr = Some ''Qubit(QuantumRegister(1, 'q'), 0)''\<rparr>
   \<and> py_int (PyOther ''<class 'str'>'' (Inr 0)) = Inr 0
   \<and> Bit_init 10 ''Qubit''
       (Some \<lparr>reg_id = 1, reg_size = 1, reg_str = ''QuantumRegister(1, 'q')'', reg_hash = 1\<rparr>)
       (PyOther ''<class 'str'>'' (Inr 0))
     = Inr \<lparr>bit_id = 10, bit_cls = ''Qubit'',
            bit_register = Some \<lparr>reg_id = 1, reg_size = 1,
                                  reg_str = ''QuantumRegister(1, 'q')'', reg_hash = 1\<rparr>,
            bit_index = Some 0, bit_hash = 13282122221094607640,
            bit_repr = Some ''Qubit(QuantumRegister(1, 'q'), 0)''\<rparr>"
proof -
  let ?r = "\<lparr>reg_id = 1, reg_size = 1, reg_str = ''QuantumRegister(1, 'q')'',
             reg_hash = 1 :: py_hash\<rparr>"
  show ?thesis
    using index_not_castable_raises
            [of "Some ?r" "PyOther ''<class 'str'>'' (Inl ValueError)" ValueError 10 "''Qubit''"]
          index_not_castable_raises [of "Some ?r" PyNone TypeError 10 "''Qubit''"]
          index_not_castable_raises [of "Some ?r" "PyFloat 1 (- 1)" _ 10 "''Qubit''" 0]
          index_not_castable_raises
            [of "Some ?r" "PyOther ''<class 'str'>'' (Inr 0)" _ 10 "''Qubit''" 0]
    by (simp add: Bit_init_q0_hash_1)
qed

section \<open>Equality against objects without a display string\<close>

text \<open>
  C10. A registered bit compared with an object that has no attribute
  \<open>_repr\<close> gives \<open>False\<close> and raises nothing. Every unregistered bit that the
  constructor builds is such an object, and so is every object of another
  class that has no such attribute.
\<close>

theorem registered_eq_without_repr_is_False:
  assumes "\<not> unregistered b"
  shows "(\<forall>other e. getattr_repr other = Inl e \<longrightarrow> Bit_eq b other = Inr False) \<and>
         (\<forall>a cls u. Bit_init a cls None PyNone = Inr u \<longrightarrow>
                     Bit_eq b (BitObj u) = Inr False) \<and>
         (\<forall>a. Bit_eq b (OtherObj a None) = Inr False)"
  using assms
  by (auto simp: Bit_eq_def Bit_init_def split: sum.splits py_error.splits option.splits
        elim: getattr_repr.elims)

text \<open>The bit at index 0 of a register against an unregistered bit and against
  an object of another class without \<open>_repr\<close>.\<close>

theorem registered_eq_without_repr_is_False_witness:
  "\<not> unregistered
       \<lparr>bit_id = 10, bit_cls = ''Qubit'',
        bit_register = Some \<lparr>reg_id = 1, reg_size = 1,
                              reg_str = ''QuantumRegister(1, 'q')'', reg_hash = 1\<rparr>,
        bit_index = Some 0, bit_hash = 13282122221094607640,
        bit_repr = Some ''Qubit(QuantumRegister(1, 'q'), 0)''\<rparr>
   \<and> Bit_init 11 ''Qubit'' None PyNone
     = Inr \<lparr>bit_id = 11, bit_cls = ''Qubit'', bit_register = None, bit_index = None,
            bit_hash = object_hash 11, bit_repr = None\<rparr>
   \<and> getattr_repr
       (BitObj \<lparr>bit_id = 11, bit_cls = ''Qubit'', bit_register = None, bit_index = None,
               bit_hash = object_hash 11, bit_repr = None\<rparr>)
     = Inl (AttributeError ''_repr'')
   \<and> Bit_eq
       \<lparr>bit_id = 10, bit_cls = ''Qubit'',
        bit_register = Some \<lparr>reg_id = 1, reg_size = 1,
                              reg_str = ''QuantumRegister(1, 'q')'', reg_hash = 1\<rparr>,
        bit_index = Some 0, bit_hash = 13282122221094607640,
        bit_repr = Some ''Qubit(QuantumRegister(1, 'q'), 0)''\<rparr>
       (BitObj \<lparr>bit_id = 11, bit_cls = ''Qubit'', bit_register = None, bit_index = None,
               bit_hash = object_hash 11, bit_repr = None\<rparr>)
     = Inr False
   \<and> Bit_eq
       \<lparr>bit_id = 10, bit_cls = ''Qubit'',
        bit_register = Some \<lparr>reg_id = 1, reg_size = 1,
                              reg_str = ''QuantumRegister(1, 'q')'', reg_hash = 1\<rparr>,
        bit_index = Some 0, bit_hash = 13282122221094607640,
        bit_repr = Some ''Qubit(QuantumRegister(1, 'q'), 0)''\<rparr>
       (OtherObj 12 None)
     = Inr False"
proof -
  let ?b = "\<lparr>bit_id = 10, bit_cls = ''Qubit'',
             bit_register = Some \<lparr>reg_id = 1, reg_size = 1,
                                   reg_str = ''QuantumRegister(1, 'q')'',
                                   reg_hash = 1 :: py_hash\<rparr>,
             bit_index = Some 0, bit_hash = 13282122221094607640,
             bit_repr = Some ''Qubit(QuantumRegister(1, 'q'), 0)''\<rparr>"
  have h: "\<not> unregistered ?b"
    by (simp add: unregistered_def)
  show ?thesis
    using h registered_eq_without_repr_is_False [OF h]
    by (simp add: Bit_init_unregistered)
qed

section \<open>The Clifford predicate and the defaults of the pass\<close>

text \<open>
  C6. The predicate accepts a node if and only if the name of its operation
  is a key of the single-qubit table, a key of the two-qubit table or one of
  \<open>clifford\<close>, \<open>linear_function\<close>, \<open>pauli\<close>, \<open>permutation\<close>, and its operation
  carries no classical condition (the attribute is missing or is \<open>None\<close>).
\<close>

theorem is_clifford_gate_iff:
  "is_clifford_gate BASIS_1Q BASIS_2Q node \<longleftrightarrow>
     op_name (node_op node)
       \<in> set BASIS_1Q \<union> set BASIS_2Q
         \<union> {''clifford'', ''linear_function'', ''pauli'', ''permutation''}
     \<and> (op_condition (node_op node) = None \<or> op_condition (node_op node) = Some None)"
  by (auto simp: is_clifford_gate_def clifford_gate_names_def getattr_condition_def
           split: option.splits)

text \<open>
  C8. The pass built with no arguments binds \<open>split_blocks = True\<close>,
  \<open>min_block_size = 2\<close>, \<open>split_layers = False\<close> and
  \<open>collect_from_back = False\<close> in the collection function, next to the
  Clifford predicate, and passes commutative analysis on as \<open>False\<close>.
\<close>

theorem CollectCliffords_defaults:
  "CollectCliffords_init BASIS_1Q BASIS_2Q None None None None None =
     \<lparr>cc_collect_function =
        \<lparr>bound_filter_function = is_clifford_gate BASIS_1Q BASIS_2Q,
         bound_split_blocks = True,
         bound_min_block_size = 2,
         bound_split_layers = False,
         bound_collect_from_back = False\<rparr>,
      cc_collapse_function = \<lparr>bound_collapse_function = collapse_to_clifford\<rparr>,
      cc_do_commutative_analysis = False\<rparr>"
  by (simp add: CollectCliffords_init_def CollectAndCollapse_init_def default_arg_def)

section \<open>The template as one block\<close>

lemma collect_runs_all_match:
  "\<forall>n \<in> set ns. matches n \<Longrightarrow> block @ ns \<noteq> [] \<Longrightarrow>
   collect_runs matches block ns = [block @ ns]"
  by (induction ns arbitrary: block) auto

lemma template_nct_5a_4_eq:
  "template_nct_5a_4 =
     \<lparr>num_qubits = 2,
      data = [gate ''cx'' [0, 1], gate ''x'' [0], gate ''cx'' [0, 1], gate ''x'' [0],
              gate ''x'' [1]]\<rparr>"
  by (simp add: template_nct_5a_4_def QuantumCircuit_def QuantumCircuit_cx_def
        QuantumCircuit_x_def)

lemma template_dag:
  "circuit_to_dag template_nct_5a_4 =
     [\<lparr>node_id = 0, node_op = \<lparr>op_name = ''cx'', op_condition = Some None\<rparr>,
       node_qargs = [0, 1], node_cargs = []\<rparr>,
      \<lparr>node_id = 1, node_op = \<lparr>op_name = ''x'', op_condition = Some None\<rparr>,
       node_qargs = [0], node_cargs = []\<rparr>,
      \<lparr>node_id = 2, node_op = \<lparr>op_name = ''cx'', op_condition = Some None\<rparr>,
       node_qargs = [0, 1], node_cargs = []\<rparr>,
      \<lparr>node_id = 3, node_op = \<lparr>op_name = ''x'', op_condition = Some None\<rparr>,
       node_qargs = [0], node_cargs = []\<rparr>,
      \<lparr>node_id = 4, node_op = \<lparr>op_name = ''x'', op_condition = Some None\<rparr>,
       node_qargs = [1], node_cargs = []\<rparr>]"
  by (simp add: template_nct_5a_4_eq circuit_to_dag_def gate_def)

lemma split_block_template:
  "split_block (circuit_to_dag template_nct_5a_4) = [circuit_to_dag template_nct_5a_4]"
  by code_simp

text \<open>
  C7. The template is a circuit on two qubits with the five gates
  \<open>cx(0, 1)\<close>, \<open>x(0)\<close>, \<open>cx(0, 1)\<close>, \<open>x(0)\<close>, \<open>x(1)\<close> in this order. When \<open>x\<close> is
  a key of the single-qubit table and \<open>cx\<close> a key of the two-qubit table, each
  of the five nodes satisfies the Clifford predicate, and the collector with
  \<open>min_block_size = 2\<close> (with or without \<open>split_blocks\<close>) returns one block,
  which holds the five nodes.
\<close>

theorem template_nct_5a_4_one_block:
  assumes "''x'' \<in> set BASIS_1Q" and "''cx'' \<in> set BASIS_2Q"
  shows "num_qubits template_nct_5a_4 = 2 \<and>
         data template_nct_5a_4 =
           [gate ''cx'' [0, 1], gate ''x'' [0], gate ''cx'' [0, 1], gate ''x'' [0],
            gate ''x'' [1]] \<and>
         (\<forall>node \<in> set (circuit_to_dag template_nct_5a_4).
            is_clifford_gate BASIS_1Q BASIS_2Q node) \<and>
         collect_using_filter_function (circuit_to_dag template_nct_5a_4)
           (is_clifford_gate BASIS_1Q BASIS_2Q) split_blocks 2
           = [circuit_to_dag template_nct_5a_4] \<and>
         length (circuit_to_dag template_nct_5a_4) = 5"
proof -
  have all: "\<forall>node \<in> set (circuit_to_dag template_nct_5a_4).
               is_clifford_gate BASIS_1Q BASIS_2Q node"
    using assms
    by (simp add: template_dag is_clifford_gate_def clifford_gate_names_def
          getattr_condition_def)
  have len: "length (circuit_to_dag template_nct_5a_4) = 5"
    by (simp add: template_dag)
  then have ne: "[] @ circuit_to_dag template_nct_5a_4 \<noteq> []"
    by auto
  have runs: "collect_runs (is_clifford_gate BASIS_1Q BASIS_2Q) []
                (circuit_to_dag template_nct_5a_4) = [circuit_to_dag template_nct_5a_4]"
    using collect_runs_all_match [OF all ne] by simp
  have "collect_using_filter_function (circuit_to_dag template_nct_5a_4)
          (is_clifford_gate BASIS_1Q BASIS_2Q) split_blocks 2
        = [circuit_to_dag template_nct_5a_4]"
    by (simp add: collect_using_filter_function_def runs split_block_template len)
  with all len show ?thesis
    by (simp add: template_nct_5a_4_eq)
qed

text \<open>With the tables \<open>x, y, z, h, s\<close> and \<open>cx, cz, swap\<close> and the values that
  the pass built with no arguments binds.\<close>

theorem template_nct_5a_4_one_block_witness:
  "''x'' \<in> set [''x'', ''y'', ''z'', ''h'', ''s'']
   \<and> ''cx'' \<in> set [''cx'', ''cz'', ''swap'']
   \<and> map (is_clifford_gate [''x'', ''y'', ''z'', ''h'', ''s''] [''cx'', ''cz'', ''swap''])
         (circuit_to_dag template_nct_5a_4)
     = [True, True, True, True, True]
   \<and> collect_using_filter_function (circuit_to_dag template_nct_5a_4)
       (bound_filter_function (cc_collect_function
          (CollectCliffords_init [''x'', ''y'', ''z'', ''h'', ''s''] [''cx'', ''cz'', ''swap'']
             None None None None None)))
       (bound_split_blocks (cc_collect_function
          (CollectCliffords_init [''x'', ''y'', ''z'', ''h'', ''s''] [''cx'', ''cz'', ''swap'']
             None None None None None)))
       (bound_min_block_size (cc_collect_function
          (CollectCliffords_init [''x'', ''y'', ''z'', ''h'', ''s''] [''cx'', ''cz'', ''swap'']
             None None None None None)))
     = [circuit_to_dag template_nct_5a_4]
   \<and> length (circuit_to_dag template_nct_5a_4) = 5"
proof -
  have h1: "''x'' \<in> set [''x'', ''y'', ''z'', ''h'', ''s'']" by simp
  have h2: "''cx'' \<in> set [''cx'', ''cz'', ''swap'']" by simp
  note inst = template_nct_5a_4_one_block [OF h1 h2, of True]
  from inst have all: "\<forall>node \<in> set (circuit_to_dag template_nct_5a_4).
      is_clifford_gate [''x'', ''y'', ''z'', ''h'', ''s''] [''cx'', ''cz'', ''swap''] node"
    by blast
  have m: "map (is_clifford_gate [''x'', ''y'', ''z'', ''h'', ''s''] [''cx'', ''cz'', ''swap''])
             (circuit_to_dag template_nct_5a_4) = [True, True, True, True, True]"
    using all unfolding template_dag by simp
  have cfg: "cc_collect_function
          (CollectCliffords_init [''x'', ''y'', ''z'', ''h'', ''s''] [''cx'', ''cz'', ''swap'']
             None None None None None)
        = \<lparr>bound_filter_function =
              is_clifford_gate [''x'', ''y'', ''z'', ''h'', ''s''] [''cx'', ''cz'', ''swap''],
           bound_split_blocks = True, bound_min_block_size = 2,
           bound_split_layers = False, bound_collect_from_back = False\<rparr>"
    by (simp add: CollectCliffords_init_def CollectAndCollapse_init_def default_arg_def)
  from inst have c: "collect_using_filter_function (circuit_to_dag template_nct_5a_4)
       (is_clifford_gate [''x'', ''y'', ''z'', ''h'', ''s''] [''cx'', ''cz'', ''swap'']) True 2
     = [circuit_to_dag template_nct_5a_4]"
    by blast
  from inst have l: "length (circuit_to_dag template_nct_5a_4) = 5"
    by blast
  show ?thesis
    using h1 h2 m c l by (simp only: cfg collect_partial.simps simp_thms)
qed

end
